theory Spec2Isabelle
  imports Complex_Main
begin

section \<open>JavaScript numbers and strings, as far as the invoice component uses them\<close>

text \<open>
  The component \<^verbatim>\<open>InvoicePage.tsx\<close> computes with JavaScript numbers and strings.
  A number is modelled as \<open>NaN\<close>, one of the two infinities, or an exact decimal
  \<open>Dec m e\<close> that stands for \<open>m * 10 ^ e\<close>. Every number the component computes comes from
  \<^verbatim>\<open>parseFloat\<close> of a text, the literals \<^verbatim>\<open>0\<close>, \<^verbatim>\<open>0.19\<close> and \<^verbatim>\<open>100\<close>, and from
  \<^verbatim>\<open>+\<close>, \<^verbatim>\<open>*\<close> and \<^verbatim>\<open>/ 100\<close>, and decimals are closed under these. Every finite
  binary64 number is such a decimal, and truthiness and \<^verbatim>\<open>toFixed\<close> are modelled exactly
  on the value. The arithmetic is idealised: \<^verbatim>\<open>parseFloat\<close>, \<^verbatim>\<open>+\<close>, \<^verbatim>\<open>*\<close> and \<^verbatim>\<open>/ 100\<close>
  give the exact decimal result where binary64 gives the nearest representable number
  (so overflow to Infinity, underflow to zero and the sign of zero do not occur), and
  \<^verbatim>\<open>toString\<close> writes the exact digits, which are the digits JavaScript writes for a
  text of up to 15 significant digits. Two terms \<open>Dec m e\<close> may denote one value;
  \<open>num_val\<close> gives the value.

  A string is a list of 8-bit characters. The component compares characters only with
  ASCII characters (digits, \<^verbatim>\<open>.\<close>, \<^verbatim>\<open>%\<close>), which are single code units in UTF-16 and
  single bytes in UTF-8 alike.
\<close>

datatype number = NaN | PosInf | NegInf | Dec int int

definition dec_val :: "int \<Rightarrow> int \<Rightarrow> rat" where
  "dec_val m e = (if 0 \<le> e then of_int m * 10 ^ nat e else of_int m / 10 ^ nat (- e))"

fun num_val :: "number \<Rightarrow> rat option" where
  "num_val (Dec m e) = Some (dec_val m e)"
| "num_val _ = None"

text \<open>\<^verbatim>\<open>ToBoolean\<close> of a number: \<^verbatim>\<open>NaN\<close> and zero are falsy.\<close>

fun truthy :: "number \<Rightarrow> bool" where
  "truthy NaN = False"
| "truthy (Dec m e) = (m \<noteq> 0)"
| "truthy PosInf = True"
| "truthy NegInf = True"

fun num_sign :: "number \<Rightarrow> int" where
  "num_sign (Dec m e) = sgn m"
| "num_sign PosInf = 1"
| "num_sign NegInf = - 1"
| "num_sign NaN = 0"

text \<open>\<^verbatim>\<open>x * y\<close>: an infinity times zero is \<^verbatim>\<open>NaN\<close>.\<close>

fun js_mul :: "number \<Rightarrow> number \<Rightarrow> number" where
  "js_mul NaN y = NaN"
| "js_mul x NaN = NaN"
| "js_mul (Dec m e) (Dec m' e') = Dec (m * m') (e + e')"
| "js_mul x y =
     (let s = num_sign x * num_sign y
      in if s = 0 then NaN else if 0 < s then PosInf else NegInf)"

text \<open>\<^verbatim>\<open>x + y\<close>: the sum of the two infinities of opposite sign is \<^verbatim>\<open>NaN\<close>.\<close>

fun js_add :: "number \<Rightarrow> number \<Rightarrow> number" where
  "js_add NaN y = NaN"
| "js_add x NaN = NaN"
| "js_add (Dec m e) (Dec m' e') =
     (let e0 = min e e' in Dec (m * 10 ^ nat (e - e0) + m' * 10 ^ nat (e' - e0)) e0)"
| "js_add PosInf NegInf = NaN"
| "js_add NegInf PosInf = NaN"
| "js_add PosInf y = PosInf"
| "js_add x PosInf = PosInf"
| "js_add NegInf y = NegInf"
| "js_add x NegInf = NegInf"

text \<open>\<^verbatim>\<open>x / 100\<close>, the only division of the component.\<close>

fun js_div_100 :: "number \<Rightarrow> number" where
  "js_div_100 (Dec m e) = Dec m (e - 2)"
| "js_div_100 x = x"

subsection \<open>Decimal digits\<close>

definition is_digit :: "char \<Rightarrow> bool" where
  "is_digit c = (c \<in> set ''0123456789'')"

definition digit_val :: "char \<Rightarrow> int" where
  "digit_val c = of_char c - 48"

definition digits_val :: "string \<Rightarrow> int" where
  "digits_val ds = foldl (\<lambda>a c. 10 * a + digit_val c) 0 ds"

definition digit_char :: "int \<Rightarrow> char" where
  "digit_char d = ''0123456789'' ! nat d"

text \<open>The decimal digits of an integer \<open>n \<ge> 0\<close>.\<close>

function digits_of :: "int \<Rightarrow> string" where
  "digits_of n =
     (if n < 10 then [digit_char n] else digits_of (n div 10) @ [digit_char (n mod 10)])"
  by pat_completeness auto
termination
  by (relation "measure nat") auto

subsection \<open>\<^verbatim>\<open>Number.prototype.toString\<close> and \<^verbatim>\<open>toFixed\<close>\<close>

text \<open>
  For \<open>m > 0\<close>, \<open>strip_zeros m\<close> is \<open>(s, z)\<close> with \<open>m = s * 10 ^ z\<close> and \<open>s\<close> not a multiple
  of ten: the digits of \<open>s\<close> are the shortest digit string of the value (\<open>k\<close> as small as
  possible in ECMAScript's \<^verbatim>\<open>Number::toString\<close>).
\<close>

function strip_zeros :: "int \<Rightarrow> int \<times> int" where
  "strip_zeros m =
     (if m \<le> 0 \<or> m mod 10 \<noteq> 0 then (m, 0)
      else (case strip_zeros (m div 10) of (s, z) \<Rightarrow> (s, z + 1)))"
  by pat_completeness auto
termination
  by (relation "measure nat") auto

definition exponent_text :: "int \<Rightarrow> string" where
  "exponent_text n =
     CHR ''e'' # (if 0 \<le> n - 1 then ''+'' else ''-'') @ digits_of \<bar>n - 1\<bar>"

text \<open>The text of the positive value \<open>m * 10 ^ e\<close>, by the five cases of \<^verbatim>\<open>Number::toString\<close>.\<close>

definition toString_pos :: "int \<Rightarrow> int \<Rightarrow> string" where
  "toString_pos m e =
     (case strip_zeros m of (s, z) \<Rightarrow>
        let ds = digits_of s; k = int (length ds); n = k + e + z
        in if k \<le> n \<and> n \<le> 21 then ds @ replicate (nat (n - k)) CHR ''0''
           else if 0 < n \<and> n \<le> 21 then take (nat n) ds @ ''.'' @ drop (nat n) ds
           else if - 6 < n \<and> n \<le> 0 then ''0.'' @ replicate (nat (- n)) CHR ''0'' @ ds
           else if k = 1 then ds @ exponent_text n
           else take 1 ds @ ''.'' @ drop 1 ds @ exponent_text n)"

fun toString :: "number \<Rightarrow> string" where
  "toString NaN = ''NaN''"
| "toString PosInf = ''Infinity''"
| "toString NegInf = ''-Infinity''"
| "toString (Dec m e) =
     (if m = 0 then ''0''
      else if m < 0 then ''-'' @ toString_pos (- m) e
      else toString_pos m e)"

text \<open>
  \<^verbatim>\<open>x.toFixed(f)\<close> for \<open>x \<ge> 0\<close>: the integer \<open>n\<close> for which \<open>n / 10 ^ f - x\<close> is as close to
  zero as possible, the larger one when there are two; its digits, padded with zeros on
  the left to \<open>f + 1\<close> digits, with the point before the last \<open>f\<close>. From \<open>10 ^ 21\<close> on the
  result is that of \<^verbatim>\<open>toString\<close>.
\<close>

definition fixed_n :: "nat \<Rightarrow> rat \<Rightarrow> int" where
  "fixed_n f x = \<lfloor>x * 10 ^ f + 1 / 2\<rfloor>"

definition fixed_text :: "nat \<Rightarrow> int \<Rightarrow> string" where
  "fixed_text f n =
     (let m = digits_of n;
          m = (if length m \<le> f then replicate (f + 1 - length m) CHR ''0'' @ m else m);
          k = length m
      in if f \<noteq> 0 then take (k - f) m @ ''.'' @ drop (k - f) m else m)"

definition toFixed_pos :: "nat \<Rightarrow> int \<Rightarrow> int \<Rightarrow> string" where
  "toFixed_pos f m e =
     (if 10 ^ 21 \<le> dec_val m e then toString_pos m e
      else fixed_text f (fixed_n f (dec_val m e)))"

fun toFixed :: "nat \<Rightarrow> number \<Rightarrow> string" where
  "toFixed f NaN = ''NaN''"
| "toFixed f PosInf = ''Infinity''"
| "toFixed f NegInf = ''-Infinity''"
| "toFixed f (Dec m e) =
     (if m < 0 then ''-'' @ toFixed_pos f (- m) e else toFixed_pos f m e)"

text \<open>\<^verbatim>\<open>s.replace(a, b)\<close> with a one-character string pattern: the first occurrence only.\<close>

fun replace_first :: "char \<Rightarrow> char \<Rightarrow> string \<Rightarrow> string" where
  "replace_first a b [] = []"
| "replace_first a b (c # cs) = (if c = a then b # cs else c # replace_first a b cs)"

subsection \<open>\<^verbatim>\<open>parseFloat\<close>\<close>

text \<open>
  \<^verbatim>\<open>parseFloat\<close> skips leading white space (the ASCII white space here) and reads the
  longest prefix that is a \<^verbatim>\<open>StrDecimalLiteral\<close>: an optional sign, then \<^verbatim>\<open>Infinity\<close>,
  or digits with an optional fraction, or a point and digits, and an exponent part when
  it is complete. With no such prefix the result is \<^verbatim>\<open>NaN\<close>.
\<close>

definition is_space :: "char \<Rightarrow> bool" where
  "is_space c = (c \<in> set [CHR '' '', CHR 0x09, CHR 0x0A, CHR 0x0B, CHR 0x0C, CHR 0x0D])"

definition starts_with :: "string \<Rightarrow> string \<Rightarrow> bool" where
  "starts_with s p = (take (length p) s = p)"

definition parse_exponent :: "string \<Rightarrow> int" where
  "parse_exponent r =
     (case r of
        [] \<Rightarrow> 0
      | c # r' \<Rightarrow>
          if c = CHR ''e'' \<or> c = CHR ''E'' then
            (case r' of
               [] \<Rightarrow> 0
             | d # r'' \<Rightarrow>
                 if d = CHR ''+'' then
                   (if takeWhile is_digit r'' = [] then 0
                    else digits_val (takeWhile is_digit r''))
                 else if d = CHR ''-'' then
                   (if takeWhile is_digit r'' = [] then 0
                    else - digits_val (takeWhile is_digit r''))
                 else if takeWhile is_digit r' = [] then 0
                 else digits_val (takeWhile is_digit r'))
          else 0)"

definition parse_unsigned :: "int \<Rightarrow> string \<Rightarrow> number" where
  "parse_unsigned sg u =
     (if starts_with u ''Infinity'' then (if sg < 0 then NegInf else PosInf)
      else
        let ip = takeWhile is_digit u;
            r1 = dropWhile is_digit u;
            fp = (case r1 of [] \<Rightarrow> [] | c # r \<Rightarrow> if c = CHR ''.'' then takeWhile is_digit r else []);
            r2 = (case r1 of [] \<Rightarrow> [] | c # r \<Rightarrow> if c = CHR ''.'' then dropWhile is_digit r else r1)
        in if ip = [] \<and> fp = [] then NaN
           else Dec (sg * digits_val (ip @ fp)) (parse_exponent r2 - int (length fp)))"

definition parseFloat :: "string \<Rightarrow> number" where
  "parseFloat s =
     (case dropWhile is_space s of
        [] \<Rightarrow> NaN
      | c # r \<Rightarrow>
          if c = CHR ''+'' then parse_unsigned 1 r
          else if c = CHR ''-'' then parse_unsigned (- 1) r
          else parse_unsigned 1 (c # r))"

subsection \<open>\<^verbatim>\<open>String.prototype.match\<close> with the pattern \<^verbatim>\<open>/(\d+)%/\<close>\<close>

text \<open>
  The search tries each start position from the left. At a position the greedy \<^verbatim>\<open>\d+\<close>
  takes the longest run of digits; giving digits back cannot help, since the character
  after a shorter run is a digit and not \<^verbatim>\<open>%\<close>. The result is the first capture group of
  the leftmost match.
\<close>

fun match_rate :: "string \<Rightarrow> string option" where
  "match_rate [] = None"
| "match_rate (c # cs) =
     (let ds = takeWhile is_digit (c # cs); rest = dropWhile is_digit (c # cs)
      in if ds \<noteq> [] \<and> (case rest of [] \<Rightarrow> False | x # _ \<Rightarrow> x = CHR ''%'') then Some ds
         else match_rate cs)"

section \<open>The invoice component\<close>

subsection \<open>Data: \<^verbatim>\<open>ProductLine\<close>, \<^verbatim>\<open>Invoice\<close> and the component's state\<close>

record ProductLine =
  description :: string
  quantity :: string
  rate :: string

text \<open>\<^verbatim>\<open>keyof ProductLine\<close>, and the assignment \<^verbatim>\<open>newProductLine[name] = value\<close>.\<close>

datatype ProductLine_key = Description | Quantity | Rate

fun set_field :: "ProductLine_key \<Rightarrow> string \<Rightarrow> ProductLine \<Rightarrow> ProductLine" where
  "set_field Description v p = p\<lparr>description := v\<rparr>"
| "set_field Quantity v p = p\<lparr>quantity := v\<rparr>"
| "set_field Rate v p = p\<lparr>rate := v\<rparr>"

text \<open>
  The fields of \<^verbatim>\<open>Invoice\<close> that the functions below read. The other fields (labels,
  addresses, dates, notes, logo) are free text that no function below reads; the record's
  extension stands for them. \<^verbatim>\<open>pageProductLines\<close> may be absent (\<^verbatim>\<open>undefined\<close>), which the
  component tests for wherever it reads it.
\<close>

record Invoice =
  name :: string
  companyName :: string
  invoiceTitle :: string
  taxLabel :: string
  currency :: string
  iban :: string
  bic :: string
  productLines :: "ProductLine list"
  pageProductLines :: "ProductLine list list option"

text \<open>
  The state of the component: the invoice, the derived amounts (\<^verbatim>\<open>undefined\<close> until their
  effect has run), the data URL of the QR image, the selected page, and the \<^verbatim>\<open>pdfMode\<close>
  property.
\<close>

record 'a component =
  invoice :: "'a Invoice_scheme"
  subTotal :: "number option"
  saleTax :: "number option"
  qrCodeDataUrl :: string
  currentPage :: int
  pdfMode :: bool

text \<open>\<^verbatim>\<open>xs[i]\<close> on an array: \<^verbatim>\<open>undefined\<close> outside \<open>0 \<dots> length - 1\<close>.\<close>

definition js_index :: "'b list \<Rightarrow> int \<Rightarrow> 'b option" where
  "js_index xs i = (if 0 \<le> i \<and> i < int (length xs) then Some (xs ! nat i) else None)"

text \<open>\<^verbatim>\<open>a || b\<close> on strings (the empty string is falsy) and \<^verbatim>\<open>x || 0\<close> on a number state.\<close>

definition or_else :: "string \<Rightarrow> string \<Rightarrow> string" where
  "or_else a b = (if a \<noteq> [] then a else b)"

definition or_zero :: "number option \<Rightarrow> number" where
  "or_zero x = (case x of None \<Rightarrow> Dec 0 0 | Some n \<Rightarrow> if truthy n then n else Dec 0 0)"

definition truthy_opt :: "number option \<Rightarrow> bool" where
  "truthy_opt x = (case x of None \<Rightarrow> False | Some n \<Rightarrow> truthy n)"

definition NL :: string where
  "NL = [CHR 0x0A]"

subsection \<open>Pages\<close>

text \<open>\<^verbatim>\<open>getCurrentPageItems\<close> (lines 61-68).\<close>

definition getCurrentPageItems :: "'a component \<Rightarrow> ProductLine list" where
  "getCurrentPageItems c =
     (if pdfMode c then
        (case pageProductLines (invoice c) of None \<Rightarrow> [] | Some pages \<Rightarrow> concat pages)
      else
        (case pageProductLines (invoice c) of
           None \<Rightarrow> []
         | Some pages \<Rightarrow>
             (case js_index pages (currentPage c - 1) of None \<Rightarrow> [] | Some items \<Rightarrow> items)))"

subsection \<open>The payment payload\<close>

text \<open>\<^verbatim>\<open>generateSepaQRData\<close> (lines 93-114); the template literal is written out line by line.\<close>

definition generateSepaQRData :: "'a component \<Rightarrow> string" where
  "generateSepaQRData c =
     (let subtotal = or_zero (subTotal c);
          tax = js_mul subtotal (Dec 19 (- 2));
          total = js_add subtotal tax;
          recipient = or_else (name (invoice c)) (or_else (companyName (invoice c)) []);
          iban' = or_else (iban (invoice c)) [];
          bic' = or_else (bic (invoice c)) [];
          reference = or_else (invoiceTitle (invoice c)) ''Rechnung''
      in ''BCD'' @ NL @
         ''002'' @ NL @
         ''1'' @ NL @
         ''SCT'' @ NL @
         bic' @ NL @
         recipient @ NL @
         iban' @ NL @
         ''EUR'' @ toFixed 2 total @ NL @
         NL @
         NL @
         reference)"

text \<open>
  The effect that makes the QR image for the PDF (lines 227-259). Its result here is the
  text handed to \<^verbatim>\<open>QRCode.toDataURL\<close>, or \<open>None\<close> when the condition fails and nothing is
  generated.
\<close>

definition qr_effect :: "'a component \<Rightarrow> string option" where
  "qr_effect c =
     (if iban (invoice c) \<noteq> [] \<and> bic (invoice c) \<noteq> [] \<and> truthy_opt (subTotal c) then
        let subtotal = or_zero (subTotal c);
            tax = js_mul subtotal (Dec 19 (- 2));
            total = js_add subtotal tax;
            recipient = or_else (name (invoice c)) (or_else (companyName (invoice c)) []);
            iban' = or_else (iban (invoice c)) [];
            bic' = or_else (bic (invoice c)) [];
            reference = or_else (invoiceTitle (invoice c)) ''Rechnung'';
            qrData =
              ''BCD'' @ NL @
              ''002'' @ NL @
              ''1'' @ NL @
              ''SCT'' @ NL @
              bic' @ NL @
              recipient @ NL @
              iban' @ NL @
              ''EUR'' @ toFixed 2 total @ NL @
              NL @
              NL @
              reference
        in Some qrData
      else None)"

text \<open>
  The QR part of \<^verbatim>\<open>renderFooter\<close> (lines 655-677): an image of the data URL in the PDF, a
  canvas of the payload in the editor, or nothing.
\<close>

datatype qr_node = QrImage string | QrCanvas string

definition renderFooter_qr :: "'a component \<Rightarrow> qr_node option" where
  "renderFooter_qr c =
     (if iban (invoice c) \<noteq> [] \<and> bic (invoice c) \<noteq> [] then
        (if pdfMode c \<and> qrCodeDataUrl c \<noteq> [] then Some (QrImage (qrCodeDataUrl c))
         else if \<not> pdfMode c then Some (QrCanvas (generateSepaQRData c))
         else None)
      else None)"

subsection \<open>Amounts\<close>

text \<open>
  \<^verbatim>\<open>calculateAmount\<close> (lines 186-192): the text shown in the amount column of a line.
  \<^verbatim>\<open>a && b ? a * b : 0\<close> takes the product when both numbers are truthy.
\<close>

definition calculateAmount :: "string \<Rightarrow> string \<Rightarrow> string" where
  "calculateAmount quantity' rate' =
     (let quantityNumber = parseFloat quantity';
          rateNumber = parseFloat rate';
          amount = (if truthy quantityNumber \<and> truthy rateNumber
                    then js_mul quantityNumber rateNumber else Dec 0 0)
      in toFixed 2 amount)"

text \<open>
  The effect that computes the subtotal (lines 194-211): two nested \<^verbatim>\<open>forEach\<close> loops add
  the amount of each line to one accumulator, page by page and line by line.
\<close>

definition subTotal_effect :: "'a component \<Rightarrow> number" where
  "subTotal_effect c =
     (case pageProductLines (invoice c) of
        None \<Rightarrow> Dec 0 0
      | Some pages \<Rightarrow>
          fold (\<lambda>pageItems acc.
                  fold (\<lambda>productLine acc'.
                          let quantityNumber = parseFloat (quantity productLine);
                              rateNumber = parseFloat (rate productLine);
                              amount = (if truthy quantityNumber \<and> truthy rateNumber
                                        then js_mul quantityNumber rateNumber else Dec 0 0)
                          in js_add acc' amount)
                       pageItems acc)
               pages (Dec 0 0))"

text \<open>
  The effect that computes the tax (lines 213-219). Its first two lines are the rate
  extraction, which the specification calls \<^verbatim>\<open>extractRatePercent\<close>.
\<close>

definition extractRatePercent :: "string \<Rightarrow> number" where
  "extractRatePercent label =
     (case match_rate label of None \<Rightarrow> Dec 0 0 | Some digits \<Rightarrow> parseFloat digits)"

definition saleTax_effect :: "'a component \<Rightarrow> number" where
  "saleTax_effect c =
     (let taxRate = extractRatePercent (taxLabel (invoice c))
      in case subTotal c of
           None \<Rightarrow> Dec 0 0
         | Some s \<Rightarrow> if truthy s then js_div_100 (js_mul s taxRate) else Dec 0 0)"

text \<open>
  The state once both effects have run after a change of the invoice: the subtotal of
  the invoice, then the tax of that subtotal.
\<close>

definition recompute :: "'a component \<Rightarrow> 'a component" where
  "recompute c =
     (let c1 = c\<lparr>subTotal := Some (subTotal_effect c)\<rparr>
      in c1\<lparr>saleTax := Some (saleTax_effect c1)\<rparr>)"





subsection \<open>Editing the lines of the selected page\<close>

text \<open>
  \<^verbatim>\<open>handleProductLineChange\<close> (lines 130-161). The parameter \<^verbatim>\<open>name\<close> is \<open>field\<close> here.
  When the selected page does not exist, the code puts an empty page into its local copy
  of the pages; that page has no item, so the test \<^verbatim>\<open>pageItems[index]\<close> fails and the copy
  is dropped. \<^verbatim>\<open>setInvoice\<close> is reached only for an item that exists, where both array
  writes are within range. \<open>keeps_raw_text\<close> is the condition of lines 146-149
  (\<^verbatim>\<open>value[value.length - 1]\<close> is undefined for the empty text), and \<open>field_text\<close> the text
  that lines 146-154 store in a quantity or rate field.
\<close>

definition keeps_raw_text :: "string \<Rightarrow> bool" where
  "keeps_raw_text value =
     (value \<noteq> [] \<and>
      (last value = CHR ''.'' \<or> (last value = CHR ''0'' \<and> CHR ''.'' \<in> set value)))"

definition field_text :: "string \<Rightarrow> string" where
  "field_text value =
     (if keeps_raw_text value then value
      else let n = parseFloat value
           in replace_first CHR ''.'' CHR '','' (toString (if truthy n then n else Dec 0 0)))"

definition handleProductLineChange ::
    "'a component \<Rightarrow> int \<Rightarrow> ProductLine_key \<Rightarrow> string \<Rightarrow> 'a component" where
  "handleProductLineChange c index field value =
     (let pageIndex = currentPage c - 1;
          newPageProductLines =
            (case pageProductLines (invoice c) of None \<Rightarrow> [] | Some pages \<Rightarrow> pages);
          pageItems =
            (case js_index newPageProductLines pageIndex of None \<Rightarrow> [] | Some items \<Rightarrow> items)
      in case js_index pageItems index of
           None \<Rightarrow> c
         | Some productLine \<Rightarrow>
             let newProductLine =
                   (if field = Description then set_field field value productLine
                    else set_field field (field_text value) productLine);
                 pageItems' = pageItems[nat index := newProductLine];
                 newPageProductLines' = newPageProductLines[nat pageIndex := pageItems']
             in c\<lparr>invoice := (invoice c)\<lparr>pageProductLines := Some newPageProductLines'\<rparr>\<rparr>)"

text \<open>\<^verbatim>\<open>handleRemove\<close> (lines 163-172): the filter keeps the items whose index is not \<open>i\<close>.\<close>

definition handleRemove :: "'a component \<Rightarrow> int \<Rightarrow> 'a component" where
  "handleRemove c i =
     (let pageIndex = currentPage c - 1;
          newPageProductLines =
            (case pageProductLines (invoice c) of None \<Rightarrow> [] | Some pages \<Rightarrow> pages)
      in case js_index newPageProductLines pageIndex of
           None \<Rightarrow> c
         | Some items \<Rightarrow>
             let pageItems = map snd (filter (\<lambda>(index, _). int index \<noteq> i) (enumerate 0 items));
                 newPageProductLines' = newPageProductLines[nat pageIndex := pageItems]
             in c\<lparr>invoice := (invoice c)\<lparr>pageProductLines := Some newPageProductLines'\<rparr>\<rparr>)"

subsection \<open>The pages of the document\<close>

text \<open>
  A rendered page: whether it has the download button, the header and the footer, and
  the lines handed to \<^verbatim>\<open>renderTable\<close>.
\<close>

record page_view =
  hasDownload :: bool
  hasHeader :: bool
  tableItems :: "ProductLine list"
  hasFooter :: bool

text \<open>\<^verbatim>\<open>renderSinglePage\<close> (lines 714-723).\<close>

definition renderSinglePage :: "'a component \<Rightarrow> page_view" where
  "renderSinglePage c =
     \<lparr>hasDownload = \<not> pdfMode c, hasHeader = True,
      tableItems = getCurrentPageItems c, hasFooter = True\<rparr>"

text \<open>
  \<^verbatim>\<open>renderPDFPages\<close> (lines 685-712). \<^verbatim>\<open>xs.slice(a, b)\<close> with \<open>0 \<le> a\<close> is
  \<open>take (b - a) (drop a xs)\<close>; \<^verbatim>\<open>Math.ceil\<close> of the quotient is the ceiling of a rational.
\<close>

definition itemsPerPDFPage :: nat where
  "itemsPerPDFPage = 20"

definition slice :: "nat \<Rightarrow> nat \<Rightarrow> 'b list \<Rightarrow> 'b list" where
  "slice a b xs = take (b - a) (drop a xs)"

definition totalPDFPages :: "'a component \<Rightarrow> nat" where
  "totalPDFPages c =
     max 1 (nat \<lceil>rat_of_nat (length (productLines (invoice c))) / rat_of_nat itemsPerPDFPage\<rceil>)"

definition renderPDFPages :: "'a component \<Rightarrow> page_view list" where
  "renderPDFPages c =
     (if \<not> pdfMode c then [renderSinglePage c]
      else
        map (\<lambda>pageNum.
               let startIdx = pageNum * itemsPerPDFPage;
                   endIdx = min (startIdx + itemsPerPDFPage) (length (productLines (invoice c)));
                   pageItems = slice startIdx endIdx (productLines (invoice c));
                   isFirstPage = (pageNum = 0);
                   isLastPage = (pageNum = totalPDFPages c - 1)
               in \<lparr>hasDownload = False, hasHeader = isFirstPage,
                   tableItems = pageItems, hasFooter = isLastPage\<rparr>)
            [0..<totalPDFPages c])"

text \<open>The pages of the document (lines 725-729).\<close>

definition render :: "'a component \<Rightarrow> page_view list" where
  "render c = (if pdfMode c then renderPDFPages c else [renderSinglePage c])"

section \<open>Notions used to state the properties\<close>

text \<open>
  The amount of a line at full precision: the expression that \<^verbatim>\<open>calculateAmount\<close> (lines
  187-189) and the subtotal effect (lines 201-203) share.
\<close>

definition lineAmount :: "string \<Rightarrow> string \<Rightarrow> number" where
  "lineAmount quantity' rate' =
     (if truthy (parseFloat quantity') \<and> truthy (parseFloat rate')
      then js_mul (parseFloat quantity') (parseFloat rate') else Dec 0 0)"

text \<open>The pages of the invoice (\<^verbatim>\<open>invoice.pageProductLines || []\<close>) and the selected page.\<close>

definition all_pages :: "'a component \<Rightarrow> ProductLine list list" where
  "all_pages c = (case pageProductLines (invoice c) of None \<Rightarrow> [] | Some pages \<Rightarrow> pages)"

definition selectedPage :: "'a component \<Rightarrow> ProductLine list option" where
  "selectedPage c = js_index (all_pages c) (currentPage c - 1)"

text \<open>The amount of the payment: \<^verbatim>\<open>total\<close> of lines 94-96 and 230-232.\<close>

definition sepa_total :: "'a component \<Rightarrow> number" where
  "sepa_total c =
     (let subtotal = or_zero (subTotal c);
          tax = js_mul subtotal (Dec 19 (- 2));
          total = js_add subtotal tax
      in total)"

text \<open>Lines joined by the newline character.\<close>

fun join_lines :: "string list \<Rightarrow> string" where
  "join_lines [] = []"
| "join_lines [l] = l"
| "join_lines (l # l' # ls) = l @ NL @ join_lines (l' # ls)"

text \<open>
  The payload as the specification's contract \<^verbatim>\<open>buildPayload\<close> words it: eleven lines,
  the amount line being the currency symbol the caller supplies and the formatted amount.
\<close>

definition buildPayload_spec ::
    "string \<Rightarrow> string \<Rightarrow> string \<Rightarrow> number \<Rightarrow> string \<Rightarrow> string \<Rightarrow> string" where
  "buildPayload_spec bic' recipientName iban' totalAmount currencySymbol reference =
     join_lines [''BCD'', ''002'', ''1'', ''SCT'', bic', recipientName, iban',
                 currencySymbol @ toFixed 2 totalAmount, [], [], reference]"




definition comma :: "string \<Rightarrow> string" where
  "comma s = replace_first CHR ''.'' CHR '','' s"

text \<open>
  The specification's words for the texts a numeric field keeps as typed: the last
  character is the decimal point, or the text ends in a zero right after the point.
\<close>

definition ends_with :: "string \<Rightarrow> string \<Rightarrow> bool" where
  "ends_with s p = (length p \<le> length s \<and> drop (length s - length p) s = p)"

definition preserved_spec :: "string \<Rightarrow> bool" where
  "preserved_spec value = (ends_with value ''.'' \<or> ends_with value ''.0'')"

definition normalize_spec :: "string \<Rightarrow> string" where
  "normalize_spec value =
     (if preserved_spec value then value
      else let n = parseFloat value
           in replace_first CHR ''.'' CHR '','' (toString (if truthy n then n else Dec 0 0)))"

text \<open>
  \<open>occurs_at label i ds\<close>: at position \<open>i\<close> of the label stands the non-empty run of digits
  \<open>ds\<close>, immediately followed by \<^verbatim>\<open>%\<close>.
\<close>

definition occurs_at :: "string \<Rightarrow> nat \<Rightarrow> string \<Rightarrow> bool" where
  "occurs_at label i ds =
     (ds \<noteq> [] \<and> list_all is_digit ds \<and> take (length ds + 1) (drop i label) = ds @ ''%'')"

text \<open>Two numbers are the same number: the same term, or decimals of one value.\<close>

definition same_number :: "number \<Rightarrow> number \<Rightarrow> bool" where
  "same_number x y = (x = y \<or> (num_val x \<noteq> None \<and> num_val x = num_val y))"

subsection \<open>Example states\<close>

definition line :: "string \<Rightarrow> string \<Rightarrow> string \<Rightarrow> ProductLine" where
  "line d q r = \<lparr>description = d, quantity = q, rate = r\<rparr>"

text \<open>
  An invoice with bank details, the currency symbol \<^verbatim>\<open>$\<close>, the given tax label, legacy
  lines and pages; and the component showing it, before any effect has run.
\<close>

definition example_invoice ::
    "string \<Rightarrow> ProductLine list \<Rightarrow> ProductLine list list option \<Rightarrow> Invoice" where
  "example_invoice label legacy pages =
     \<lparr>name = ''Jane Doe'', companyName = ''ACME'', invoiceTitle = ''INV-1'',
      taxLabel = label, currency = ''$'', iban = ''DE12'', bic = ''ABCDDEFG'',
      productLines = legacy, pageProductLines = pages\<rparr>"

definition example_component :: "bool \<Rightarrow> int \<Rightarrow> Invoice \<Rightarrow> unit component" where
  "example_component pdf page data =
     \<lparr>invoice = data, subTotal = None, saleTax = None, qrCodeDataUrl = [],
      currentPage = page, pdfMode = pdf\<rparr>"

section \<open>Properties\<close>

subsection \<open>The value of sums and products of decimals\<close>





subsection \<open>Rounding to two digits\<close>














subsection \<open>The amount of a line\<close>







subsection \<open>The subtotal\<close>

lemma fold_pages_concat:
  "fold (\<lambda>xs acc. fold f xs acc) xss a = fold f (concat xss) a"
  by (induction xss arbitrary: a) simp_all

lemma subTotal_effect_fold:
  "subTotal_effect c =
     fold (\<lambda>productLine acc. js_add acc (lineAmount (quantity productLine) (rate productLine)))
          (concat (all_pages c)) (Dec 0 0)"
proof (cases "pageProductLines (invoice c)")
  case None
  then show ?thesis
    by (simp add: subTotal_effect_def all_pages_def)
next
  case (Some pages)
  then show ?thesis
    by (simp add: subTotal_effect_def all_pages_def lineAmount_def Let_def fold_pages_concat)
qed

text \<open>
  C6. The subtotal is the sum, from zero, of the full-precision amounts of all lines of
  all pages in page-then-line order, and two groupings into pages of the same sequence
  of lines give the same subtotal. (In the example two lines of amount 0.004, each shown
  as \<^verbatim>\<open>0.00\<close>, give the subtotal 0.008.)
\<close>

theorem subTotal_sum_independent_of_pages:
  "subTotal_effect c =
     foldl js_add (Dec 0 0)
       (map (\<lambda>productLine. lineAmount (quantity productLine) (rate productLine))
            (concat (all_pages c)))
   \<and> (concat (all_pages c) = concat (all_pages c') \<longrightarrow> subTotal_effect c = subTotal_effect c')"
  by (simp add: subTotal_effect_fold foldl_conv_fold fold_map comp_def)

theorem subTotal_sum_independent_of_pages_witness:
  "concat (all_pages (example_component False 1
       (example_invoice ''19%'' [] (Some [[line ''a'' ''0.004'' ''1''], [line ''b'' ''0.004'' ''1'']]))))
   = concat (all_pages (example_component False 1
       (example_invoice ''19%'' [] (Some [[line ''a'' ''0.004'' ''1'', line ''b'' ''0.004'' ''1'']]))))
   \<and> subTotal_effect (example_component False 1
       (example_invoice ''19%'' [] (Some [[line ''a'' ''0.004'' ''1''], [line ''b'' ''0.004'' ''1'']])))
   = subTotal_effect (example_component False 1
       (example_invoice ''19%'' [] (Some [[line ''a'' ''0.004'' ''1'', line ''b'' ''0.004'' ''1'']])))
   \<and> num_val (subTotal_effect (example_component False 1
       (example_invoice ''19%'' [] (Some [[line ''a'' ''0.004'' ''1''], [line ''b'' ''0.004'' ''1'']]))))
   = Some (8 / 1000)
   \<and> calculateAmount ''0.004'' ''1'' = ''0.00''"
    (is "concat (all_pages ?A) = concat (all_pages ?B) \<and> _")
proof -
  have same: "concat (all_pages ?A) = concat (all_pages ?B)"
    by (simp add: all_pages_def example_component_def example_invoice_def)
  from subTotal_sum_independent_of_pages [of ?A ?B] same
  have eq: "subTotal_effect ?A = subTotal_effect ?B"
    by blast
  have full: "num_val (subTotal_effect ?A) = Some (8 / 1000)"
      "calculateAmount ''0.004'' ''1'' = ''0.00''"
    by code_simp+
  from same eq full show ?thesis
    by blast
qed

subsection \<open>Edits that find no line or no page\<close>

lemma handleProductLineChange_no_item:
  assumes "js_index (case selectedPage c of None \<Rightarrow> [] | Some items \<Rightarrow> items) index = None"
  shows "handleProductLineChange c index field value = c"
  using assms
  unfolding handleProductLineChange_def selectedPage_def all_pages_def Let_def
  by simp

lemma handleRemove_no_page:
  assumes "selectedPage c = None"
  shows "handleRemove c i = c"
  using assms
  unfolding handleRemove_def selectedPage_def all_pages_def Let_def
  by simp

text \<open>
  C10. Editing a field of a line at an index that the selected page does not have (also
  when the selected page itself does not exist), and removing a line when the selected
  page does not exist, return the state unchanged: no line is created, and neither
  function has a failing branch.
\<close>

theorem edit_without_target_is_noop:
  "((case selectedPage c of None \<Rightarrow> True | Some items \<Rightarrow> js_index items index = None)
      \<longrightarrow> handleProductLineChange c index field value = c)
   \<and> (selectedPage c = None \<longrightarrow> handleRemove c i = c)"
proof (intro conjI impI)
  assume h: "case selectedPage c of None \<Rightarrow> True | Some items \<Rightarrow> js_index items index = None"
  have "js_index (case selectedPage c of None \<Rightarrow> [] | Some items \<Rightarrow> items) index = None"
  proof (cases "selectedPage c")
    case None
    then show ?thesis by (simp add: js_index_def)
  next
    case (Some items)
    with h show ?thesis by simp
  qed
  then show "handleProductLineChange c index field value = c"
    by (rule handleProductLineChange_no_item)
next
  assume "selectedPage c = None"
  then show "handleRemove c i = c"
    by (rule handleRemove_no_page)
qed

theorem edit_without_target_is_noop_witness:
  "selectedPage (example_component False 2 (example_invoice ''19%'' [] (Some [[line ''a'' ''1'' ''2'']])))
     = None
   \<and> handleProductLineChange
        (example_component False 2 (example_invoice ''19%'' [] (Some [[line ''a'' ''1'' ''2'']])))
        0 Quantity ''3''
     = example_component False 2 (example_invoice ''19%'' [] (Some [[line ''a'' ''1'' ''2'']]))
   \<and> handleRemove
        (example_component False 2 (example_invoice ''19%'' [] (Some [[line ''a'' ''1'' ''2'']]))) 0
     = example_component False 2 (example_invoice ''19%'' [] (Some [[line ''a'' ''1'' ''2'']]))
   \<and> selectedPage (example_component False 1 (example_invoice ''19%'' [] (Some [[line ''a'' ''1'' ''2'']])))
     = Some [line ''a'' ''1'' ''2'']
   \<and> js_index [line ''a'' ''1'' ''2''] 5 = None
   \<and> handleProductLineChange
        (example_component False 1 (example_invoice ''19%'' [] (Some [[line ''a'' ''1'' ''2'']])))
        5 Quantity ''3''
     = example_component False 1 (example_invoice ''19%'' [] (Some [[line ''a'' ''1'' ''2'']]))"
    (is "selectedPage ?A = None \<and> _ \<and> _ \<and> selectedPage ?B = _ \<and> _")
proof -
  have none: "selectedPage ?A = None"
    by (simp add: selectedPage_def all_pages_def js_index_def example_component_def
          example_invoice_def)
  have some: "selectedPage ?B = Some [line ''a'' ''1'' ''2'']"
    by (simp add: selectedPage_def all_pages_def js_index_def example_component_def
          example_invoice_def)
  have missing: "js_index [line ''a'' ''1'' ''2''] 5 = None"
    by (simp add: js_index_def)
  from edit_without_target_is_noop
         [where c = ?A and index = 0 and field = Quantity and i = 0] none
  have a: "handleProductLineChange ?A 0 Quantity ''3'' = ?A \<and> handleRemove ?A 0 = ?A"
    by simp
  from edit_without_target_is_noop
         [where c = ?B and index = 5 and field = Quantity] some missing
  have b: "handleProductLineChange ?B 5 Quantity ''3'' = ?B"
    by simp
  from none some missing a b show ?thesis
    by blast
qed

subsection \<open>The payment payload\<close>

lemma qr_effect_payload:
  "qr_effect c =
     (if iban (invoice c) \<noteq> [] \<and> bic (invoice c) \<noteq> [] \<and> truthy_opt (subTotal c)
      then Some (generateSepaQRData c) else None)"
  by (simp add: qr_effect_def generateSepaQRData_def Let_def)

lemma generateSepaQRData_lines:
  "generateSepaQRData c =
     join_lines [''BCD'', ''002'', ''1'', ''SCT'', bic (invoice c),
                 or_else (name (invoice c)) (companyName (invoice c)), iban (invoice c),
                 ''EUR'' @ toFixed 2 (sepa_total c), [], [],
                 or_else (invoiceTitle (invoice c)) ''Rechnung'']"
  by (simp add: generateSepaQRData_def sepa_total_def or_else_def Let_def)



text \<open>
  C1 as stated fails: the amount line does not start with the currency symbol of the
  invoice. For an invoice whose currency symbol is \<^verbatim>\<open>$\<close> (no lines, so the amount is zero)
  the payload has the line \<^verbatim>\<open>EUR0.00\<close>, and differs from the payload the contract
  describes for the symbol \<^verbatim>\<open>$\<close>.
\<close>

theorem payload_ignores_currency_symbol:
  "currency (invoice (example_component False 1 (example_invoice ''19%'' [] (Some [[]])))) = ''$''
   \<and> generateSepaQRData (example_component False 1 (example_invoice ''19%'' [] (Some [[]])))
       = join_lines [''BCD'', ''002'', ''1'', ''SCT'', ''ABCDDEFG'', ''Jane Doe'', ''DE12'',
                     ''EUR0.00'', [], [], ''INV-1'']
   \<and> generateSepaQRData (example_component False 1 (example_invoice ''19%'' [] (Some [[]])))
       \<noteq> buildPayload_spec ''ABCDDEFG'' ''Jane Doe'' ''DE12''
            (sepa_total (example_component False 1 (example_invoice ''19%'' [] (Some [[]]))))
            (currency (invoice (example_component False 1 (example_invoice ''19%'' [] (Some [[]])))))
            ''INV-1''"
  by code_simp

text \<open>
  C1, amended. The payload is exactly eleven lines joined by newlines: \<^verbatim>\<open>BCD\<close>, \<^verbatim>\<open>002\<close>,
  \<^verbatim>\<open>1\<close>, \<^verbatim>\<open>SCT\<close>, the BIC, the recipient name, the IBAN, the literal \<^verbatim>\<open>EUR\<close> immediately
  followed by the amount with two decimals and a period, two empty lines, and the
  reference. The currency symbol of the invoice is not used. The text made for the PDF
  is the same one. The last conjunct is the example of the specification.
\<close>

theorem generateSepaQRData_eleven_lines:
  "generateSepaQRData c =
     buildPayload_spec (bic (invoice c)) (or_else (name (invoice c)) (companyName (invoice c)))
       (iban (invoice c)) (sepa_total c) ''EUR'' (or_else (invoiceTitle (invoice c)) ''Rechnung'')
   \<and> buildPayload_spec b r i t ''EUR'' ref =
       ''BCD'' @ NL @ ''002'' @ NL @ ''1'' @ NL @ ''SCT'' @ NL @ b @ NL @ r @ NL @ i @ NL @
       ''EUR'' @ toFixed 2 t @ NL @ NL @ NL @ ref
   \<and> length [''BCD'', ''002'', ''1'', ''SCT'', b, r, i, ''EUR'' @ toFixed 2 t, [], [], ref] = 11
   \<and> qr_effect c =
       (if iban (invoice c) \<noteq> [] \<and> bic (invoice c) \<noteq> [] \<and> truthy_opt (subTotal c)
        then Some (generateSepaQRData c) else None)
   \<and> generateSepaQRData
        ((example_component False 1 (example_invoice ''19%'' [] (Some [[]])))
           \<lparr>subTotal := Some (Dec 100 0)\<rparr>)
       = ''BCD'' @ NL @ ''002'' @ NL @ ''1'' @ NL @ ''SCT'' @ NL @ ''ABCDDEFG'' @ NL @
         ''Jane Doe'' @ NL @ ''DE12'' @ NL @ ''EUR119.00'' @ NL @ NL @ NL @ ''INV-1''"
proof (intro conjI)
  show "generateSepaQRData c =
     buildPayload_spec (bic (invoice c)) (or_else (name (invoice c)) (companyName (invoice c)))
       (iban (invoice c)) (sepa_total c) ''EUR'' (or_else (invoiceTitle (invoice c)) ''Rechnung'')"
    by (simp only: generateSepaQRData_lines buildPayload_spec_def)
  show "buildPayload_spec b r i t ''EUR'' ref =
       ''BCD'' @ NL @ ''002'' @ NL @ ''1'' @ NL @ ''SCT'' @ NL @ b @ NL @ r @ NL @ i @ NL @
       ''EUR'' @ toFixed 2 t @ NL @ NL @ NL @ ref"
    by (simp add: buildPayload_spec_def)
  show "length [''BCD'', ''002'', ''1'', ''SCT'', b, r, i, ''EUR'' @ toFixed 2 t, [], [], ref] = 11"
    by simp
  show "qr_effect c =
       (if iban (invoice c) \<noteq> [] \<and> bic (invoice c) \<noteq> [] \<and> truthy_opt (subTotal c)
        then Some (generateSepaQRData c) else None)"
    by (rule qr_effect_payload)
  show "generateSepaQRData
        ((example_component False 1 (example_invoice ''19%'' [] (Some [[]])))
           \<lparr>subTotal := Some (Dec 100 0)\<rparr>)
       = ''BCD'' @ NL @ ''002'' @ NL @ ''1'' @ NL @ ''SCT'' @ NL @ ''ABCDDEFG'' @ NL @
         ''Jane Doe'' @ NL @ ''DE12'' @ NL @ ''EUR119.00'' @ NL @ NL @ NL @ ''INV-1''"
    by code_simp
qed



subsection \<open>When a payload is generated\<close>

text \<open>
  C8 as stated fails: in the PDF, with both bank fields filled in, a subtotal of zero
  suppresses the payload. The state is the PDF of an invoice with IBAN and BIC and one
  page without lines, after the effects have run.
\<close>

theorem zero_subtotal_suppresses_pdf_payload:
  "iban (invoice (recompute (example_component True 1 (example_invoice ''19%'' [] (Some [[]]))))) \<noteq> []
   \<and> bic (invoice (recompute (example_component True 1 (example_invoice ''19%'' [] (Some [[]]))))) \<noteq> []
   \<and> subTotal (recompute (example_component True 1 (example_invoice ''19%'' [] (Some [[]]))))
       = Some (Dec 0 0)
   \<and> qr_effect (recompute (example_component True 1 (example_invoice ''19%'' [] (Some [[]])))) = None
   \<and> renderFooter_qr (recompute (example_component True 1 (example_invoice ''19%'' [] (Some [[]]))))
       = None"
  by (simp add: qr_effect_payload renderFooter_qr_def recompute_def subTotal_effect_def
        truthy_opt_def example_component_def example_invoice_def Let_def)

text \<open>
  C8, amended. In the editor the payload is generated exactly when IBAN and BIC are both
  non-empty, whatever the subtotal. For the PDF the payload is generated exactly when
  IBAN and BIC are both non-empty and the subtotal is a number other than zero; it is
  then the same text as in the editor. With an empty IBAN or BIC nothing is generated
  or shown, in either mode.
\<close>

theorem payload_generated_iff:
  "(\<not> pdfMode c \<longrightarrow>
      (renderFooter_qr c = Some (QrCanvas (generateSepaQRData c)))
        = (iban (invoice c) \<noteq> [] \<and> bic (invoice c) \<noteq> []))
   \<and> ((qr_effect c = Some (generateSepaQRData c))
        = (iban (invoice c) \<noteq> [] \<and> bic (invoice c) \<noteq> [] \<and> truthy_opt (subTotal c)))
   \<and> ((qr_effect c = None)
        = (\<not> (iban (invoice c) \<noteq> [] \<and> bic (invoice c) \<noteq> [] \<and> truthy_opt (subTotal c))))
   \<and> (iban (invoice c) = [] \<or> bic (invoice c) = [] \<longrightarrow>
        qr_effect c = None \<and> renderFooter_qr c = None)"
  by (auto simp: qr_effect_payload renderFooter_qr_def)

theorem payload_generated_iff_witness:
  "\<not> pdfMode (example_component False 1 (example_invoice ''19%'' [] (Some [[]])))
   \<and> renderFooter_qr (example_component False 1 (example_invoice ''19%'' [] (Some [[]])))
       = Some (QrCanvas (generateSepaQRData
                 (example_component False 1 (example_invoice ''19%'' [] (Some [[]])))))
   \<and> qr_effect (example_component False 1 (example_invoice ''19%'' [] (Some [[]]))) = None"
    (is "\<not> pdfMode ?A \<and> _")
proof -
  have facts: "\<not> pdfMode ?A" "iban (invoice ?A) \<noteq> []" "bic (invoice ?A) \<noteq> []"
      "\<not> truthy_opt (subTotal ?A)"
    by (simp_all add: example_component_def example_invoice_def truthy_opt_def)
  with payload_generated_iff [of ?A] show ?thesis
    by simp
qed

subsection \<open>The amounts shown in the footer\<close>






subsection \<open>The tax rate of a label\<close>

lemma not_digit_percent: "\<not> is_digit CHR ''%''"
  by (simp add: is_digit_def)

lemma occurs_at_0:
  "occurs_at s 0 ds =
     (ds \<noteq> [] \<and> ds = takeWhile is_digit s
      \<and> (case dropWhile is_digit s of [] \<Rightarrow> False | x # _ \<Rightarrow> x = CHR ''%''))"
proof
  assume o: "occurs_at s 0 ds"
  then have ne: "ds \<noteq> []" and dig: "list_all is_digit ds"
    and tk: "take (length ds + 1) s = ds @ ''%''"
    by (simp_all add: occurs_at_def)
  define rest where "rest = drop (length ds + 1) s"
  have "s = take (length ds + 1) s @ rest"
    by (simp add: rest_def)
  with tk have s: "s = ds @ CHR ''%'' # rest"
    by simp
  from dig have all: "\<And>x. x \<in> set ds \<Longrightarrow> is_digit x"
    by (simp add: list_all_iff)
  have tw: "takeWhile is_digit s = ds"
    by (subst s) (simp add: all not_digit_percent)
  have dw: "dropWhile is_digit s = CHR ''%'' # rest"
    by (subst s) (simp add: all not_digit_percent)
  show "ds \<noteq> [] \<and> ds = takeWhile is_digit s
      \<and> (case dropWhile is_digit s of [] \<Rightarrow> False | x # _ \<Rightarrow> x = CHR ''%'')"
    using ne tw dw by simp
next
  assume r: "ds \<noteq> [] \<and> ds = takeWhile is_digit s
      \<and> (case dropWhile is_digit s of [] \<Rightarrow> False | x # _ \<Rightarrow> x = CHR ''%'')"
  then obtain rest where d: "dropWhile is_digit s = CHR ''%'' # rest"
    by (auto split: list.splits)
  have "s = takeWhile is_digit s @ dropWhile is_digit s"
    by simp
  with r d have s: "s = ds @ CHR ''%'' # rest"
    by simp
  have "list_all is_digit (takeWhile is_digit s)"
    by (auto simp: list_all_iff dest: set_takeWhileD)
  with r have dig: "list_all is_digit ds"
    by simp
  have "take (length ds + 1) (ds @ CHR ''%'' # rest) = ds @ ''%''"
    by simp
  with s have tk: "take (length ds + 1) s = ds @ ''%''"
    by simp
  from r have "ds \<noteq> []"
    by blast
  with dig tk show "occurs_at s 0 ds"
    unfolding occurs_at_def drop_0 by blast
qed

lemma occurs_at_Suc: "occurs_at (c # cs) (Suc j) ds = occurs_at cs j ds"
  by (simp add: occurs_at_def)

lemma occurs_at_Nil: "\<not> occurs_at [] i ds"
  by (simp add: occurs_at_def)

lemma match_rate_Cons:
  "match_rate (c # cs) =
     (if occurs_at (c # cs) 0 (takeWhile is_digit (c # cs))
      then Some (takeWhile is_digit (c # cs)) else match_rate cs)"
  by (simp only: match_rate.simps Let_def occurs_at_0) simp

lemma occurs_at_0_unique: "occurs_at s 0 ds \<Longrightarrow> ds = takeWhile is_digit s"
  by (simp add: occurs_at_0)

lemma match_rate_None: "(match_rate s = None) = (\<forall>i ds. \<not> occurs_at s i ds)"
proof (induction s)
  case Nil
  then show ?case by (simp add: occurs_at_Nil)
next
  case (Cons c cs)
  show ?case
  proof (cases "occurs_at (c # cs) 0 (takeWhile is_digit (c # cs))")
    case True
    then have "match_rate (c # cs) \<noteq> None"
      by (simp only: match_rate_Cons if_True simp_thms option.distinct)
    with True show ?thesis
      by blast
  next
    case False
    have "(\<forall>i ds. \<not> occurs_at (c # cs) i ds) = (\<forall>j ds. \<not> occurs_at cs j ds)"
    proof
      assume a: "\<forall>i ds. \<not> occurs_at (c # cs) i ds"
      show "\<forall>j ds. \<not> occurs_at cs j ds"
      proof (intro allI)
        fix j ds
        from a have "\<not> occurs_at (c # cs) (Suc j) ds" by blast
        then show "\<not> occurs_at cs j ds" by (simp add: occurs_at_Suc)
      qed
    next
      assume a: "\<forall>j ds. \<not> occurs_at cs j ds"
      show "\<forall>i ds. \<not> occurs_at (c # cs) i ds"
      proof (intro allI)
        fix i ds
        show "\<not> occurs_at (c # cs) i ds"
        proof (cases i)
          case 0
          with False show ?thesis
            using occurs_at_0_unique by blast
        next
          case (Suc j)
          with a show ?thesis by (simp add: occurs_at_Suc)
        qed
      qed
    qed
    with False Cons.IH show ?thesis
      by (simp only: match_rate_Cons if_False simp_thms)
  qed
qed

lemma match_rate_Some:
  "match_rate s = Some ds \<Longrightarrow>
     \<exists>i. occurs_at s i ds \<and> (\<forall>j ds'. occurs_at s j ds' \<longrightarrow> i \<le> j \<and> (j = i \<longrightarrow> ds' = ds))"
proof (induction s)
  case Nil
  then show ?case by simp
next
  case (Cons c cs)
  show ?case
  proof (cases "occurs_at (c # cs) 0 (takeWhile is_digit (c # cs))")
    case True
    with Cons.prems have ds: "ds = takeWhile is_digit (c # cs)"
      by (simp only: match_rate_Cons if_True option.inject simp_thms)
    with True have "occurs_at (c # cs) 0 ds" by simp
    moreover have "\<forall>j ds'. occurs_at (c # cs) j ds' \<longrightarrow> 0 \<le> j \<and> (j = 0 \<longrightarrow> ds' = ds)"
      using ds occurs_at_0_unique by blast
    ultimately show ?thesis by blast
  next
    case False
    with Cons.prems have "match_rate cs = Some ds"
      by (simp only: match_rate_Cons if_False simp_thms)
    with Cons.IH obtain i where i: "occurs_at cs i ds"
      and least: "\<forall>j ds'. occurs_at cs j ds' \<longrightarrow> i \<le> j \<and> (j = i \<longrightarrow> ds' = ds)"
      by blast
    have "occurs_at (c # cs) (Suc i) ds"
      using i by (simp add: occurs_at_Suc)
    moreover have "\<forall>j ds'. occurs_at (c # cs) j ds' \<longrightarrow> Suc i \<le> j \<and> (j = Suc i \<longrightarrow> ds' = ds)"
    proof (intro allI impI)
      fix j ds'
      assume o: "occurs_at (c # cs) j ds'"
      show "Suc i \<le> j \<and> (j = Suc i \<longrightarrow> ds' = ds)"
      proof (cases j)
        case 0
        with o False show ?thesis
          using occurs_at_0_unique by blast
      next
        case (Suc j')
        with o have "occurs_at cs j' ds'" by (simp add: occurs_at_Suc)
        with least have "i \<le> j' \<and> (j' = i \<longrightarrow> ds' = ds)" by blast
        with Suc show ?thesis by simp
      qed
    qed
    ultimately show ?thesis by blast
  qed
qed

lemma is_digit_not_special:
  "is_digit c \<Longrightarrow> \<not> is_space c \<and> c \<noteq> CHR ''+'' \<and> c \<noteq> CHR ''-'' \<and> c \<noteq> CHR ''I''"
  by (auto simp: is_digit_def is_space_def)

lemma parseFloat_digits:
  assumes "ds \<noteq> []" "list_all is_digit ds"
  shows "parseFloat ds = Dec (digits_val ds) 0"
proof -
  from assms obtain c r where ds: "ds = c # r" and c: "is_digit c"
    by (cases ds) auto
  from assms(2) have tw: "takeWhile is_digit ds = ds" "dropWhile is_digit ds = []"
    by (simp_all add: list_all_iff)
  from c have sp: "\<not> is_space c" "c \<noteq> CHR ''+''" "c \<noteq> CHR ''-''" "c \<noteq> CHR ''I''"
    by (simp_all add: is_digit_not_special)
  then have "\<not> starts_with ds ''Infinity''"
    by (auto simp: starts_with_def ds)
  with assms(1) have "parse_unsigned 1 ds = Dec (digits_val ds) 0"
    by (simp add: parse_unsigned_def tw parse_exponent_def)
  with sp show ?thesis
    by (simp add: parseFloat_def ds)
qed

lemma occurs_at_digits: "occurs_at s i ds \<Longrightarrow> ds \<noteq> [] \<and> list_all is_digit ds"
  by (simp add: occurs_at_def)

lemma extractRatePercent_Some:
  assumes "match_rate label = Some ds"
  shows "extractRatePercent label = Dec (digits_val ds) 0"
proof -
  from match_rate_Some [OF assms] obtain i where "occurs_at label i ds"
    by blast
  then have "ds \<noteq> []" "list_all is_digit ds"
    by (simp_all add: occurs_at_digits)
  then have "parseFloat ds = Dec (digits_val ds) 0"
    by (rule parseFloat_digits)
  with assms show ?thesis
    by (simp add: extractRatePercent_def)
qed

lemma extractRatePercent_Dec: "\<exists>r. extractRatePercent label = Dec r 0"
proof (cases "match_rate label")
  case None
  then show ?thesis by (simp add: extractRatePercent_def)
next
  case (Some ds)
  then show ?thesis by (simp add: extractRatePercent_Some)
qed

lemma dec_val_0: "dec_val 0 e = 0"
  by (simp add: dec_val_def)

lemma saleTax_effect_formula:
  assumes "subTotal c = Some s" "s \<noteq> NaN"
  shows "same_number (saleTax_effect c)
           (js_div_100 (js_mul s (extractRatePercent (taxLabel (invoice c)))))"
proof -
  obtain r where r: "extractRatePercent (taxLabel (invoice c)) = Dec r 0"
    using extractRatePercent_Dec by blast
  show ?thesis
  proof (cases "truthy s")
    case True
    with assms(1) show ?thesis
      by (simp add: saleTax_effect_def same_number_def Let_def)
  next
    case False
    with assms(2) obtain e where s: "s = Dec 0 e"
      by (cases s) auto
    with assms(1) have "saleTax_effect c = Dec 0 0"
      by (simp add: saleTax_effect_def Let_def)
    then show ?thesis
      by (simp add: same_number_def s r dec_val_0)
  qed
qed

text \<open>
  C4. The rate is the number written by the first run of digits that a \<^verbatim>\<open>%\<close> follows
  immediately (the leftmost position where such a run stands, and the whole run there),
  and 0 when the label has no such run; the three examples of the specification; and the
  tax is subtotal * rate / 100 for a subtotal that is a number.
\<close>

theorem extractRatePercent_first_match:
  "(match_rate label = None) = (\<forall>i ds. \<not> occurs_at label i ds)
   \<and> (match_rate label = None \<longrightarrow> extractRatePercent label = Dec 0 0)
   \<and> (match_rate label = Some ds \<longrightarrow>
         extractRatePercent label = Dec (digits_val ds) 0
         \<and> (\<exists>i. occurs_at label i ds
                \<and> (\<forall>j ds'. occurs_at label j ds' \<longrightarrow> i \<le> j \<and> (j = i \<longrightarrow> ds' = ds))))
   \<and> extractRatePercent ''VAT 19%'' = Dec 19 0
   \<and> extractRatePercent ''no tax'' = Dec 0 0
   \<and> extractRatePercent ''7% off, 19% VAT'' = Dec 7 0
   \<and> (subTotal c = Some s \<and> s \<noteq> NaN \<longrightarrow>
         same_number (saleTax_effect c)
           (js_div_100 (js_mul s (extractRatePercent (taxLabel (invoice c))))))"
proof (intro conjI impI)
  show "(match_rate label = None) = (\<forall>i ds. \<not> occurs_at label i ds)"
    by (rule match_rate_None)
  show "extractRatePercent label = Dec 0 0" if "match_rate label = None"
    using that by (simp add: extractRatePercent_def)
  show "extractRatePercent label = Dec (digits_val ds) 0" if "match_rate label = Some ds"
    using that by (rule extractRatePercent_Some)
  show "\<exists>i. occurs_at label i ds
          \<and> (\<forall>j ds'. occurs_at label j ds' \<longrightarrow> i \<le> j \<and> (j = i \<longrightarrow> ds' = ds))"
    if "match_rate label = Some ds"
    using that by (rule match_rate_Some)
  show "extractRatePercent ''VAT 19%'' = Dec 19 0"
    by code_simp
  show "extractRatePercent ''no tax'' = Dec 0 0"
    by code_simp
  show "extractRatePercent ''7% off, 19% VAT'' = Dec 7 0"
    by code_simp
  show "same_number (saleTax_effect c)
           (js_div_100 (js_mul s (extractRatePercent (taxLabel (invoice c)))))"
    if "subTotal c = Some s \<and> s \<noteq> NaN"
    using that by (simp add: saleTax_effect_formula)
qed

theorem extractRatePercent_first_match_witness:
  "match_rate ''7% off, 19% VAT'' = Some ''7''
   \<and> occurs_at ''7% off, 19% VAT'' 0 ''7''
   \<and> occurs_at ''7% off, 19% VAT'' 8 ''19''
   \<and> extractRatePercent ''7% off, 19% VAT'' = Dec (digits_val ''7'') 0
   \<and> match_rate ''no tax'' = None
   \<and> extractRatePercent ''no tax'' = Dec 0 0
   \<and> subTotal (recompute (example_component False 1
         (example_invoice ''VAT 19%'' [] (Some [[line ''a'' ''100'' ''1'']])))) = Some (Dec 100 0)
   \<and> Dec 100 0 \<noteq> NaN
   \<and> same_number
        (saleTax_effect (recompute (example_component False 1
           (example_invoice ''VAT 19%'' [] (Some [[line ''a'' ''100'' ''1'']])))))
        (js_div_100 (js_mul (Dec 100 0) (extractRatePercent (taxLabel (invoice
           (recompute (example_component False 1
              (example_invoice ''VAT 19%'' [] (Some [[line ''a'' ''100'' ''1'']])))))))))
   \<and> num_val (saleTax_effect (recompute (example_component False 1
         (example_invoice ''VAT 19%'' [] (Some [[line ''a'' ''100'' ''1'']]))))) = Some 19"
    (is "_ \<and> _ \<and> _ \<and> _ \<and> _ \<and> _ \<and> subTotal ?A = _ \<and> _")
proof -
  have m: "match_rate ''7% off, 19% VAT'' = Some ''7''" "match_rate ''no tax'' = None"
    by code_simp+
  have o: "occurs_at ''7% off, 19% VAT'' 0 ''7''" "occurs_at ''7% off, 19% VAT'' 8 ''19''"
    by code_simp+
  have st: "subTotal ?A = Some (Dec 100 0)"
    by code_simp
  have v: "num_val (saleTax_effect ?A) = Some 19"
    by code_simp
  have nn: "Dec 100 0 \<noteq> NaN"
    by simp
  from extractRatePercent_first_match
         [where label = "''7% off, 19% VAT''" and ds = "''7''" and c = ?A and s = "Dec 100 0"]
       m(1) st nn
  have a: "extractRatePercent ''7% off, 19% VAT'' = Dec (digits_val ''7'') 0
           \<and> same_number (saleTax_effect ?A)
                (js_div_100 (js_mul (Dec 100 0) (extractRatePercent (taxLabel (invoice ?A)))))"
    by blast
  from extractRatePercent_first_match [where label = "''no tax''"] m(2)
  have b: "extractRatePercent ''no tax'' = Dec 0 0"
    by blast
  from m o st nn v a b show ?thesis
    by blast
qed

subsection \<open>The text stored in a numeric field\<close>

lemma ends_with_point: "ends_with v ''.'' \<Longrightarrow> v \<noteq> [] \<and> last v = CHR ''.''"
proof -
  assume e: "ends_with v ''.''"
  then have len: "1 \<le> length v" and d: "drop (length v - 1) v = ''.''"
    by (simp_all add: ends_with_def)
  from len have ne: "v \<noteq> []" by auto
  then have "last (drop (length v - 1) v) = last v"
    by (simp add: last_drop)
  with d ne show ?thesis by simp
qed

lemma ends_with_point_zero:
  "ends_with v ''.0'' \<Longrightarrow> v \<noteq> [] \<and> last v = CHR ''0'' \<and> CHR ''.'' \<in> set v"
proof -
  assume e: "ends_with v ''.0''"
  define n where "n = length v - length ''.0''"
  from e have len: "length ''.0'' \<le> length v" and d: "drop n v = ''.0''"
    unfolding ends_with_def n_def by blast+
  from len have ne: "v \<noteq> []" by auto
  from len have "n < length v"
    by (simp add: n_def)
  then have "last (drop n v) = last v"
    by (rule last_drop)
  with d have l: "last v = CHR ''0''" by simp
  have "CHR ''.'' \<in> set (drop n v)"
    by (simp add: d)
  then have "CHR ''.'' \<in> set v"
    by (rule in_set_dropD)
  with ne l show ?thesis by simp
qed

lemma preserved_spec_keeps: "preserved_spec v \<Longrightarrow> keeps_raw_text v"
  by (auto simp: preserved_spec_def keeps_raw_text_def dest: ends_with_point ends_with_point_zero)

lemma js_index_update:
  "js_index xs i = Some x \<Longrightarrow> js_index (xs[nat i := y]) i = Some y"
  by (auto simp: js_index_def split: if_splits)

lemma handleProductLineChange_item:
  assumes "selectedPage c = Some items" "js_index items index = Some productLine"
  shows "selectedPage (handleProductLineChange c index field v) =
           Some (items[nat index :=
                   (if field = Description then set_field field v productLine
                    else set_field field (field_text v) productLine)])"
proof -
  from assms(1) have p: "js_index (all_pages c) (currentPage c - 1) = Some items"
    by (simp add: selectedPage_def)
  have "handleProductLineChange c index field v =
          c\<lparr>invoice := (invoice c)\<lparr>pageProductLines :=
              Some ((all_pages c)[nat (currentPage c - 1) := items[nat index :=
                   (if field = Description then set_field field v productLine
                    else set_field field (field_text v) productLine)]])\<rparr>\<rparr>"
    using p assms(2)
    unfolding handleProductLineChange_def all_pages_def Let_def
    by simp
  then show ?thesis
    using p by (simp add: selectedPage_def all_pages_def js_index_update)
qed

text \<open>
  C7 as stated fails for a text such as \<^verbatim>\<open>1.50\<close>: its last character is not the point and
  it does not end in a zero right after the point, so by the claim it is parsed and shown
  as \<^verbatim>\<open>1,5\<close>; the code keeps \<^verbatim>\<open>1.50\<close> as typed.
\<close>

theorem field_text_keeps_later_zero:
  "\<not> preserved_spec ''1.50''
   \<and> normalize_spec ''1.50'' = ''1,5''
   \<and> field_text ''1.50'' = ''1.50''
   \<and> selectedPage (handleProductLineChange
         (example_component False 1 (example_invoice ''19%'' [] (Some [[line ''a'' ''1'' ''1'']])))
         0 Quantity ''1.50'')
       = Some [line ''a'' ''1.50'' ''1'']"
  by code_simp

text \<open>
  C7, amended. A text entered into a quantity or rate field is kept as typed when its
  last character is the point, or when its last character is a zero and the text has a
  point anywhere (so \<^verbatim>\<open>12.\<close>, \<^verbatim>\<open>12.0\<close> and also \<^verbatim>\<open>1.50\<close>); the texts the specification
  names are among these. Otherwise the text is parsed, a result that is \<^verbatim>\<open>NaN\<close> or zero
  gives the text \<^verbatim>\<open>0\<close>, and the field holds the number's text with the period replaced
  by a comma. The text is stored in the line at the given index of the selected page.
\<close>

theorem field_text_amended:
  "field_text v =
     (if keeps_raw_text v then v
      else comma (toString (if truthy (parseFloat v) then parseFloat v else Dec 0 0)))
   \<and> keeps_raw_text v =
       (v \<noteq> [] \<and> (last v = CHR ''.'' \<or> (last v = CHR ''0'' \<and> CHR ''.'' \<in> set v)))
   \<and> (preserved_spec v \<longrightarrow> field_text v = v)
   \<and> (\<not> keeps_raw_text v \<and> \<not> truthy (parseFloat v) \<longrightarrow> field_text v = ''0'')
   \<and> (selectedPage c = Some items \<and> js_index items index = Some productLine
        \<and> field \<noteq> Description \<longrightarrow>
         selectedPage (handleProductLineChange c index field v)
           = Some (items[nat index := set_field field (field_text v) productLine]))"
proof (intro conjI impI)
  show "field_text v =
     (if keeps_raw_text v then v
      else comma (toString (if truthy (parseFloat v) then parseFloat v else Dec 0 0)))"
    by (simp add: field_text_def comma_def Let_def)
  show "keeps_raw_text v =
       (v \<noteq> [] \<and> (last v = CHR ''.'' \<or> (last v = CHR ''0'' \<and> CHR ''.'' \<in> set v)))"
    by (rule keeps_raw_text_def)
  show "field_text v = v" if "preserved_spec v"
    using preserved_spec_keeps [OF that] by (simp add: field_text_def)
  show "field_text v = ''0''" if "\<not> keeps_raw_text v \<and> \<not> truthy (parseFloat v)"
    using that by (simp add: field_text_def Let_def)
  show "selectedPage (handleProductLineChange c index field v)
           = Some (items[nat index := set_field field (field_text v) productLine])"
    if "selectedPage c = Some items \<and> js_index items index = Some productLine
        \<and> field \<noteq> Description"
    using that by (simp add: handleProductLineChange_item)
qed

theorem field_text_amended_witness:
  "preserved_spec ''12.''
   \<and> field_text ''12.'' = ''12.''
   \<and> parseFloat ''12.'' = Dec 12 0
   \<and> selectedPage (example_component False 1 (example_invoice ''19%'' [] (Some [[line ''a'' ''1'' ''1'']])))
       = Some [line ''a'' ''1'' ''1'']
   \<and> js_index [line ''a'' ''1'' ''1''] 0 = Some (line ''a'' ''1'' ''1'')
   \<and> selectedPage (handleProductLineChange
         (example_component False 1 (example_invoice ''19%'' [] (Some [[line ''a'' ''1'' ''1'']])))
         0 Quantity ''12.'')
       = Some [line ''a'' ''12.'' ''1'']
   \<and> num_val (subTotal_effect (handleProductLineChange
         (example_component False 1 (example_invoice ''19%'' [] (Some [[line ''a'' ''1'' ''1'']])))
         0 Quantity ''12.'')) = Some 12
   \<and> \<not> keeps_raw_text ''abc'' \<and> \<not> truthy (parseFloat ''abc'')
   \<and> field_text ''abc'' = ''0''"
    (is "_ \<and> _ \<and> _ \<and> selectedPage ?A = _ \<and> _")
proof -
  have sp: "preserved_spec ''12.''"
    by code_simp
  have pf: "parseFloat ''12.'' = Dec 12 0"
    by code_simp
  have sel: "selectedPage ?A = Some [line ''a'' ''1'' ''1'']"
      "js_index [line ''a'' ''1'' ''1''] 0 = Some (line ''a'' ''1'' ''1'')"
    by code_simp+
  have upd: "[line ''a'' ''1'' ''1''][nat 0 := set_field Quantity ''12.'' (line ''a'' ''1'' ''1'')]
               = [line ''a'' ''12.'' ''1'']"
    by (simp add: line_def)
  have sub: "num_val (subTotal_effect (handleProductLineChange ?A 0 Quantity ''12.'')) = Some 12"
    by code_simp
  have abc: "\<not> keeps_raw_text ''abc''" "\<not> truthy (parseFloat ''abc'')"
    by code_simp+
  have q: "Quantity \<noteq> Description"
    by simp
  from field_text_amended [where v = "''12.''" and c = ?A and index = 0 and field = Quantity] sp sel q
  have a: "field_text ''12.'' = ''12.''
           \<and> selectedPage (handleProductLineChange ?A 0 Quantity ''12.'')
               = Some ([line ''a'' ''1'' ''1''][nat 0 :=
                    set_field Quantity (field_text ''12.'') (line ''a'' ''1'' ''1'')])"
    by blast
  then have a': "selectedPage (handleProductLineChange ?A 0 Quantity ''12.'')
                   = Some [line ''a'' ''12.'' ''1'']"
    using upd by simp
  from field_text_amended [where v = "''abc''"] abc
  have b: "field_text ''abc'' = ''0''"
    by blast
  from sp pf sel sub abc a a' b show ?thesis
    by blast
qed

subsection \<open>The pages of the export\<close>

lemma ceil_pages: "nat \<lceil>rat_of_nat n / rat_of_nat itemsPerPDFPage\<rceil> = (n + 19) div 20"
proof -
  have "\<lceil>rat_of_int (int n) / rat_of_int 20\<rceil> = - (- int n div 20)"
    by (rule ceiling_divide_eq_div)
  moreover have "- (- int n div 20) = int ((n + 19) div 20)"
    by (simp add: zdiv_int)
  ultimately show ?thesis
    by (simp add: itemsPerPDFPage_def)
qed

lemma totalPDFPages_eq:
  "totalPDFPages c = max 1 ((length (productLines (invoice c)) + 19) div 20)"
  by (simp only: totalPDFPages_def ceil_pages)

lemma slice_chunk:
  "slice (k * n) (min (k * n + n) (length xs)) xs = take n (drop (k * n) xs)"
  by (simp add: slice_def min_def)

lemma concat_chunks:
  "concat (map (\<lambda>k. take n (drop (k * n) xs)) [0..<m]) = take (m * n) xs"
proof (induction m)
  case 0
  then show ?case by simp
next
  case (Suc m)
  have "take (m * n + n) xs = take (m * n) xs @ take n (drop (m * n) xs)"
    by (rule take_add)
  with Suc show ?case
    by (simp add: add.commute)
qed

lemma renderPDFPages_pdf:
  assumes "pdfMode c"
  shows "renderPDFPages c =
           map (\<lambda>pageNum.
                  \<lparr>hasDownload = False, hasHeader = (pageNum = 0),
                   tableItems = take itemsPerPDFPage
                                  (drop (pageNum * itemsPerPDFPage) (productLines (invoice c))),
                   hasFooter = (pageNum = totalPDFPages c - 1)\<rparr>)
               [0..<totalPDFPages c]"
  using assms by (simp add: renderPDFPages_def Let_def slice_chunk)

text \<open>
  What \<^verbatim>\<open>renderPDFPages\<close> does chunk is the legacy list \<^verbatim>\<open>invoice.productLines\<close>: into
  \<open>max 1 \<lceil>N / 20\<rceil>\<close> pages whose lines, concatenated, are that list, with the header on the
  first page only and the footer on the last page only.
\<close>

lemma renderPDFPages_chunks_productLines:
  assumes "pdfMode c"
  shows "length (render c) = max 1 ((length (productLines (invoice c)) + 19) div 20)"
    and "concat (map tableItems (render c)) = productLines (invoice c)"
    and "map hasHeader (render c) = map (\<lambda>k. k = 0) [0..<length (render c)]"
    and "map hasFooter (render c) = map (\<lambda>k. k = length (render c) - 1) [0..<length (render c)]"
proof -
  have r: "render c = renderPDFPages c"
    using assms by (simp add: render_def)
  show len: "length (render c) = max 1 ((length (productLines (invoice c)) + 19) div 20)"
    by (simp add: r renderPDFPages_pdf [OF assms] totalPDFPages_eq)
  have "length (productLines (invoice c)) \<le> totalPDFPages c * itemsPerPDFPage"
    by (simp add: totalPDFPages_eq itemsPerPDFPage_def max_def) presburger
  then show "concat (map tableItems (render c)) = productLines (invoice c)"
    by (simp add: r renderPDFPages_pdf [OF assms] comp_def concat_chunks)
  have l: "length (render c) = totalPDFPages c"
    by (simp add: r renderPDFPages_pdf [OF assms])
  show "map hasHeader (render c) = map (\<lambda>k. k = 0) [0..<length (render c)]"
    unfolding l by (simp add: r renderPDFPages_pdf [OF assms] comp_def)
  show "map hasFooter (render c) = map (\<lambda>k. k = length (render c) - 1) [0..<length (render c)]"
    unfolding l by (simp add: r renderPDFPages_pdf [OF assms] comp_def)
qed

text \<open>
  C2 fails on the code: the lines of the pages are not what the export chunks. In the PDF
  of an invoice whose pages hold the lines \<^verbatim>\<open>a\<close> and \<^verbatim>\<open>b\<close> and whose legacy list
  \<^verbatim>\<open>productLines\<close> holds one other line, the export has one page with that legacy line;
  the flattened lines of the pages, which \<^verbatim>\<open>getCurrentPageItems\<close> computes for the PDF and
  the subtotal is summed over, appear on no page.
\<close>

theorem export_ignores_pages:
  "getCurrentPageItems (example_component True 1 (example_invoice ''19%'' [line ''old'' ''1'' ''1'']
       (Some [[line ''a'' ''2'' ''3''], [line ''b'' ''1'' ''1'']])))
     = [line ''a'' ''2'' ''3'', line ''b'' ''1'' ''1'']
   \<and> render (example_component True 1 (example_invoice ''19%'' [line ''old'' ''1'' ''1'']
       (Some [[line ''a'' ''2'' ''3''], [line ''b'' ''1'' ''1'']])))
     = [\<lparr>hasDownload = False, hasHeader = True, tableItems = [line ''old'' ''1'' ''1''],
         hasFooter = True\<rparr>]
   \<and> num_val (subTotal_effect (example_component True 1 (example_invoice ''19%'' [line ''old'' ''1'' ''1'']
       (Some [[line ''a'' ''2'' ''3''], [line ''b'' ''1'' ''1'']])))) = Some 7"
  by code_simp

end
